theory Spec2Isabelle
  imports Main
begin

section \<open>The navigation controller of the maze game (playerController.py)\<close>

text \<open>
  The class \<open>PlayerController\<close> owns a player (pixel coordinates \<open>x\<close>, \<open>y\<close>), a maze
  (the matrix \<open>current_level\<close> of cell codes, indexed row first), a cached cell position
  \<open>player_position\<close> and four solver slots. Python integers are unbounded, so every
  coordinate and every cell code is an \<open>int\<close>. The constant \<open>TILE_SIZE\<close> comes from the
  module \<open>config\<close>; it is the first argument \<open>ts\<close> of every operation that reads it.
\<close>

subsection \<open>Python primitives: errors, indexing, floor division\<close>

datatype py_error = IndexError | ZeroDivisionError | AttributeError

text \<open>
  \<open>xs[i]\<close>: an index from \<open>-len(xs)\<close> up to \<open>-1\<close> counts from the end of the list, an
  index outside \<open>[-len(xs), len(xs))\<close> raises \<open>IndexError\<close>.
\<close>

definition py_index :: "'a list \<Rightarrow> int \<Rightarrow> py_error + 'a" where
  "py_index xs i =
     (if 0 \<le> i \<and> i < int (length xs) then Inr (xs ! nat i)
      else if i < 0 \<and> - int (length xs) \<le> i then Inr (xs ! nat (int (length xs) + i))
      else Inl IndexError)"

text \<open>
  \<open>a // b\<close> on integers rounds towards minus infinity, as \<open>div\<close> on \<open>int\<close> does, and
  raises \<open>ZeroDivisionError\<close> for \<open>b = 0\<close>.
\<close>

definition floordiv :: "int \<Rightarrow> int \<Rightarrow> py_error + int" where
  "floordiv a b = (if b = 0 then Inl ZeroDivisionError else Inr (a div b))"

subsection \<open>Data\<close>

type_synonym level = "int list list"
type_synonym cell = "int \<times> int"
type_synonym path = "cell list"

text \<open>
  The solver classes live in the modules \<open>dfs\<close>, \<open>bfs\<close>, \<open>dijkstra\<close> and in the A* module;
  the controller only calls them, so each solver is the function its calls compute.
  A DFS or BFS solver maps the level, the start and the goal to the flag returned by
  \<open>dfs(...)\<close> (or \<open>bfs(...)\<close>) and the list \<open>get_path()\<close> returns afterwards. A Dijkstra
  solver maps start and goal to the result of \<open>find_shortest_path\<close>, \<open>None\<close> being Python's
  \<open>None\<close>. An A* solver answers \<open>find_goal_position(maze)\<close> and
  \<open>find_shortest_path(heuristic1)\<close>.
\<close>

type_synonym grid_solver = "level \<Rightarrow> cell \<Rightarrow> cell \<Rightarrow> bool \<times> path"
type_synonym dijkstra = "cell \<Rightarrow> cell \<Rightarrow> path option"

record astar =
  astar_find_goal_position :: "level \<Rightarrow> cell option"
  astar_find_shortest_path :: "path option"

text \<open>
  The controller with the objects it refers to, flattened: \<open>player_x\<close>, \<open>player_y\<close> are
  \<open>self.player.x\<close>, \<open>self.player.y\<close>; \<open>current_level\<close> is \<open>self.maze.current_level\<close>;
  \<open>maze_truth\<close> is the truth value of the maze object (decided by the class of the maze,
  tested by \<open>move_to_goal_astar\<close>); a solver slot holding \<open>None\<close> is Python's \<open>None\<close>;
  \<open>stdout\<close> collects the lines written by \<open>print\<close>.
\<close>

record controller =
  player_x :: int
  player_y :: int
  current_level :: level
  maze_truth :: bool
  player_position :: cell
  dfs_solver :: "grid_solver option"
  bfs_solver :: "grid_solver option"
  dijkstra_solver :: "dijkstra option"
  astar_solver :: "astar option"
  stdout :: "string list"

text \<open>
  A method either returns or raises; in both cases the caller sees the controller as the
  method left it.
\<close>

datatype outcome = Returned controller | Raised py_error controller

text \<open>
  \<open>__init__\<close>: the cached cell is \<open>(1, 1)\<close>, the DFS and BFS slots hold fresh solvers
  (the values of \<open>DFS()\<close> and \<open>BFS()\<close>, here \<open>dfs0\<close> and \<open>bfs0\<close>), the Dijkstra and A* slots
  hold \<open>None\<close>.
\<close>

definition init :: "int \<Rightarrow> int \<Rightarrow> level \<Rightarrow> bool \<Rightarrow> grid_solver \<Rightarrow> grid_solver \<Rightarrow> controller" where
  "init px py lvl truth dfs0 bfs0 =
     \<lparr> player_x = px, player_y = py, current_level = lvl, maze_truth = truth,
       player_position = (1, 1), dfs_solver = Some dfs0, bfs_solver = Some bfs0,
       dijkstra_solver = None, astar_solver = None, stdout = [] \<rparr>"

subsection \<open>Validation\<close>

text \<open>\<open>level[row][column]\<close>, with both index operations as Python performs them.\<close>

definition cell_code :: "level \<Rightarrow> int \<Rightarrow> int \<Rightarrow> py_error + int" where
  "cell_code lvl row column =
     (case py_index lvl row of
        Inl e \<Rightarrow> Inl e
      | Inr cells \<Rightarrow> py_index cells column)"

text \<open>
  \<open>is_valid_position\<close>: the conjunction is evaluated left to right and stops at the first
  false conjunct; \<open>len(level[0])\<close> is read only once the row index is known to be in range.
\<close>

definition is_valid_position :: "level \<Rightarrow> cell \<Rightarrow> py_error + bool" where
  "is_valid_position lvl position =
     (case position of (x, y) \<Rightarrow>
        if 0 \<le> x \<and> x < int (length lvl) then
          (case py_index lvl 0 of
             Inl e \<Rightarrow> Inl e
           | Inr row0 \<Rightarrow>
               if 0 \<le> y \<and> y < int (length row0) then
                 (case cell_code lvl x y of
                    Inl e \<Rightarrow> Inl e
                  | Inr code \<Rightarrow> Inr (code \<noteq> 1))
               else Inr False)
        else Inr False)"

text \<open>
  \<open>check_collision\<close>: the cell is derived from the pixel coordinates and looked up with no
  test of the bounds. The result is true when the cell is not a wall.
\<close>

definition check_collision :: "int \<Rightarrow> level \<Rightarrow> int \<Rightarrow> int \<Rightarrow> py_error + bool" where
  "check_collision ts lvl x y =
     (case floordiv y ts of
        Inl e \<Rightarrow> Inl e
      | Inr row \<Rightarrow>
          (case floordiv x ts of
             Inl e \<Rightarrow> Inl e
           | Inr column \<Rightarrow>
               (case cell_code lvl row column of
                  Inl e \<Rightarrow> Inl e
                | Inr code \<Rightarrow> Inr (code \<noteq> 1))))"

subsection \<open>Keyboard moves\<close>

datatype key = K_UP | K_DOWN | K_LEFT | K_RIGHT

type_synonym direction = "key \<Rightarrow> bool"

text \<open>
  The \<open>if\<close>/\<open>elif\<close> chain of \<open>move_player\<close>: the prospective pixel position and the
  prospective cell of the first pressed key in the order of the chain, \<open>None\<close> for the
  final \<open>else: return\<close>.
\<close>

definition prospective :: "int \<Rightarrow> direction \<Rightarrow> controller \<Rightarrow> (int \<times> int \<times> cell) option" where
  "prospective ts direction s =
     (let new_x = player_x s; new_y = player_y s; pos = player_position s in
      if direction K_UP then Some (new_x, new_y - ts, (fst pos - 1, snd pos))
      else if direction K_DOWN then Some (new_x, new_y + ts, (fst pos + 1, snd pos))
      else if direction K_LEFT then Some (new_x - ts, new_y, (fst pos, snd pos - 1))
      else if direction K_RIGHT then Some (new_x + ts, new_y, (fst pos, snd pos + 1))
      else None)"

text \<open>
  \<open>move_player\<close>: two separate \<open>if\<close> statements follow the chain, the first guarding the
  cached cell, the second guarding the pixel position. An error raised by the second
  test leaves the assignment of the first in place.
\<close>

definition move_player :: "int \<Rightarrow> direction \<Rightarrow> controller \<Rightarrow> outcome" where
  "move_player ts direction s =
     (case prospective ts direction s of
        None \<Rightarrow> Returned s
      | Some (new_x, new_y, new_position) \<Rightarrow>
          (case is_valid_position (current_level s) new_position of
             Inl e \<Rightarrow> Raised e s
           | Inr valid \<Rightarrow>
               (let s1 = (if valid then s\<lparr>player_position := new_position\<rparr> else s) in
                case check_collision ts (current_level s1) new_x new_y of
                  Inl e \<Rightarrow> Raised e s1
                | Inr free \<Rightarrow>
                    Returned (if free then s1\<lparr>player_x := new_x, player_y := new_y\<rparr> else s1))))"

definition reset_player_position :: "int \<Rightarrow> controller \<Rightarrow> controller" where
  "reset_player_position ts s = s\<lparr>player_x := ts, player_y := ts\<rparr>"

subsection \<open>Solver slots\<close>

text \<open>The four setters store their argument, whatever it is, \<open>None\<close> included.\<close>

definition set_dfs_solver :: "grid_solver option \<Rightarrow> controller \<Rightarrow> controller" where
  "set_dfs_solver solver s = s\<lparr>dfs_solver := solver\<rparr>"

definition set_bfs_solver :: "grid_solver option \<Rightarrow> controller \<Rightarrow> controller" where
  "set_bfs_solver solver s = s\<lparr>bfs_solver := solver\<rparr>"

definition set_dijkstra_solver :: "dijkstra option \<Rightarrow> controller \<Rightarrow> controller" where
  "set_dijkstra_solver solver s = s\<lparr>dijkstra_solver := solver\<rparr>"

definition set_astar_solver :: "astar option \<Rightarrow> controller \<Rightarrow> controller" where
  "set_astar_solver solver s = s\<lparr>astar_solver := solver\<rparr>"

subsection \<open>Conversions between cells and pixels\<close>

text \<open>
  \<open>follow_path\<close> turns a cell \<open>(goal_y, goal_x)\<close> of the path into the pixel target
  \<open>(goal_x * TILE_SIZE, goal_y * TILE_SIZE)\<close>; the \<open>move_to_goal\<close> methods turn the pixel
  position into the cell \<open>(y // TILE_SIZE, x // TILE_SIZE)\<close>. Pixel pairs are \<open>(x, y)\<close>,
  cells are \<open>(row, column)\<close>.
\<close>

definition cell_to_pixel :: "int \<Rightarrow> cell \<Rightarrow> int \<times> int" where
  "cell_to_pixel ts position = (case position of (goal_y, goal_x) \<Rightarrow> (goal_x * ts, goal_y * ts))"

definition pixel_to_cell :: "int \<Rightarrow> int \<times> int \<Rightarrow> py_error + cell" where
  "pixel_to_cell ts p =
     (case p of (x, y) \<Rightarrow>
        (case floordiv y ts of
           Inl e \<Rightarrow> Inl e
         | Inr row \<Rightarrow>
             (case floordiv x ts of
                Inl e \<Rightarrow> Inl e
              | Inr column \<Rightarrow> Inr (row, column))))"

subsection \<open>Goal discovery\<close>

text \<open>
  \<open>find_goal_position\<close>: two nested \<open>for\<close> loops over \<open>range(len(level))\<close> and
  \<open>range(len(level[0]))\<close>; the column range is that of row 0 for every row, and is read
  anew in every pass of the outer loop. The first cell with code 3 ends both loops.
\<close>

fun find_goal_columns :: "level \<Rightarrow> nat \<Rightarrow> nat list \<Rightarrow> py_error + cell option" where
  "find_goal_columns lvl i [] = Inr None"
| "find_goal_columns lvl i (j # js) =
     (case cell_code lvl (int i) (int j) of
        Inl e \<Rightarrow> Inl e
      | Inr code \<Rightarrow>
          if code = 3 then Inr (Some (int i, int j)) else find_goal_columns lvl i js)"

fun find_goal_rows :: "level \<Rightarrow> nat list \<Rightarrow> py_error + cell option" where
  "find_goal_rows lvl [] = Inr None"
| "find_goal_rows lvl (i # is) =
     (case py_index lvl 0 of
        Inl e \<Rightarrow> Inl e
      | Inr row0 \<Rightarrow>
          (case find_goal_columns lvl i [0..<length row0] of
             Inl e \<Rightarrow> Inl e
           | Inr (Some position) \<Rightarrow> Inr (Some position)
           | Inr None \<Rightarrow> find_goal_rows lvl is))"

definition find_goal_position :: "level \<Rightarrow> py_error + cell option" where
  "find_goal_position lvl = find_goal_rows lvl [0..<length lvl]"

subsection \<open>Path replay\<close>

text \<open>
  One pass through the body of the \<open>while\<close> loop of \<open>follow_path\<close>, for the pixel target
  \<open>(target_x, target_y)\<close> and the pixel position \<open>(px, py)\<close>: \<open>Inr (Some p)\<close> when the test
  of the cell passes and the player is moved to \<open>p\<close>, \<open>Inr None\<close> when the cell is a wall and
  the pass changes nothing. Both directions are computed before the single assignment.
  The calls that draw the maze and the path, present the frame and wait act on the
  display only.
\<close>

definition follow_step :: "int \<Rightarrow> level \<Rightarrow> int \<times> int \<Rightarrow> int \<times> int \<Rightarrow> py_error + (int \<times> int) option" where
  "follow_step ts lvl target p =
     (case target of (target_x, target_y) \<Rightarrow>
      case p of (px, py) \<Rightarrow>
        (let direction_x = (if target_x > px then 1 else if target_x < px then - 1 else 0);
             direction_y = (if target_y > py then 1 else if target_y < py then - 1 else 0);
             new_x = px + direction_x * ts;
             new_y = py + direction_y * ts
         in case floordiv new_y ts of
              Inl e \<Rightarrow> Inl e
            | Inr row \<Rightarrow>
                (case floordiv new_x ts of
                   Inl e \<Rightarrow> Inl e
                 | Inr column \<Rightarrow>
                     (case cell_code lvl row column of
                        Inl e \<Rightarrow> Inl e
                      | Inr code \<Rightarrow> Inr (if code \<noteq> 1 then Some (new_x, new_y) else None)))))"

text \<open>
  The \<open>while\<close> loop for one target. Nothing bounds the number of passes, so the loop is a
  partial function: the value \<open>None\<close> means that it never ends.
\<close>

partial_function (option) follow_target :: "int \<Rightarrow> int \<times> int \<Rightarrow> controller \<Rightarrow> outcome option" where
  "follow_target ts target s =
     (if player_x s \<noteq> fst target \<or> player_y s \<noteq> snd target then
        (case follow_step ts (current_level s) target (player_x s, player_y s) of
           Inl e \<Rightarrow> Some (Raised e s)
         | Inr None \<Rightarrow> follow_target ts target s
         | Inr (Some new) \<Rightarrow> follow_target ts target (s\<lparr>player_x := fst new, player_y := snd new\<rparr>))
      else Some (Returned s))"

text \<open>The \<open>for\<close> loop over the path; an error or a loop that never ends stops the replay.\<close>

fun follow_path :: "int \<Rightarrow> path \<Rightarrow> controller \<Rightarrow> outcome option" where
  "follow_path ts [] s = Some (Returned s)"
| "follow_path ts (position # rest) s =
     (case follow_target ts (cell_to_pixel ts position) s of
        None \<Rightarrow> None
      | Some (Raised e s') \<Rightarrow> Some (Raised e s')
      | Some (Returned s') \<Rightarrow> follow_path ts rest s')"

subsection \<open>Moving to the goal\<close>

definition start_position :: "int \<Rightarrow> controller \<Rightarrow> py_error + cell" where
  "start_position ts s = pixel_to_cell ts (player_x s, player_y s)"

text \<open>
  \<open>move_to_goal_dfs\<close> and \<open>move_to_goal_bfs\<close> differ in the slot they read only. Calling a
  method of a slot that holds \<open>None\<close> raises \<open>AttributeError\<close>.
\<close>

definition move_to_goal_grid :: "grid_solver option \<Rightarrow> int \<Rightarrow> controller \<Rightarrow> outcome option" where
  "move_to_goal_grid slot ts s =
     (case start_position ts s of
        Inl e \<Rightarrow> Some (Raised e s)
      | Inr start \<Rightarrow>
          (case find_goal_position (current_level s) of
             Inl e \<Rightarrow> Some (Raised e s)
           | Inr None \<Rightarrow> Some (Returned s)
           | Inr (Some goal) \<Rightarrow>
               (case slot of
                  None \<Rightarrow> Some (Raised AttributeError s)
                | Some solver \<Rightarrow>
                    (case solver (current_level s) start goal of
                       (found, path) \<Rightarrow>
                         if found then follow_path ts path s else Some (Returned s)))))"

definition move_to_goal_dfs :: "int \<Rightarrow> controller \<Rightarrow> outcome option" where
  "move_to_goal_dfs ts s = move_to_goal_grid (dfs_solver s) ts s"

definition move_to_goal_bfs :: "int \<Rightarrow> controller \<Rightarrow> outcome option" where
  "move_to_goal_bfs ts s = move_to_goal_grid (bfs_solver s) ts s"

text \<open>\<open>if path:\<close> holds for a list that is not empty; \<open>None\<close> and \<open>[]\<close> are false.\<close>

definition move_to_goal_dijkstra :: "int \<Rightarrow> controller \<Rightarrow> outcome option" where
  "move_to_goal_dijkstra ts s =
     (case dijkstra_solver s of
        None \<Rightarrow> Some (Returned s)
      | Some solver \<Rightarrow>
          (case start_position ts s of
             Inl e \<Rightarrow> Some (Raised e s)
           | Inr start \<Rightarrow>
               (case find_goal_position (current_level s) of
                  Inl e \<Rightarrow> Some (Raised e s)
                | Inr None \<Rightarrow> Some (Returned s)
                | Inr (Some goal) \<Rightarrow>
                    (case solver start goal of
                       None \<Rightarrow> Some (Returned s)
                     | Some [] \<Rightarrow> Some (Returned s)
                     | Some (c # cs) \<Rightarrow> follow_path ts (c # cs) s))))"

definition print :: "string \<Rightarrow> controller \<Rightarrow> controller" where
  "print line s = s\<lparr>stdout := stdout s @ [line]\<rparr>"

definition move_to_goal_astar :: "int \<Rightarrow> controller \<Rightarrow> outcome option" where
  "move_to_goal_astar ts s =
     (case astar_solver s of
        None \<Rightarrow>
          Some (Returned (print ''A* solver not initialized. Please call set_astar_solver first.'' s))
      | Some solver \<Rightarrow>
          if \<not> maze_truth s then Some (Returned (print ''Maze not initialized.'' s))
          else
            (case start_position ts s of
               Inl e \<Rightarrow> Some (Raised e s)
             | Inr start \<Rightarrow>
                 (case astar_find_goal_position solver (current_level s) of
                    None \<Rightarrow> Some (Returned s)
                  | Some goal \<Rightarrow>
                      (case astar_find_shortest_path solver of
                         None \<Rightarrow> Some (Returned s)
                       | Some [] \<Rightarrow> Some (Returned s)
                       | Some (c # cs) \<Rightarrow> follow_path ts (c # cs) s))))"

subsection \<open>Notions used to state the properties\<close>

text \<open>A key state in which exactly the keys of a list are pressed.\<close>

definition keys_down :: "key list \<Rightarrow> direction" where
  "keys_down ks = (\<lambda>k. k \<in> set ks)"

text \<open>A rectangular level: every row is as long as row 0.\<close>

definition rectangular :: "level \<Rightarrow> bool" where
  "rectangular lvl = (\<forall>cells \<in> set lvl. length cells = length (hd lvl))"

text \<open>The cell in row \<open>i\<close>, column \<open>j\<close> exists and carries the goal marker 3.\<close>

definition is_goal :: "level \<Rightarrow> nat \<Rightarrow> nat \<Rightarrow> bool" where
  "is_goal lvl i j = (i < length lvl \<and> j < length (lvl ! i) \<and> lvl ! i ! j = 3)"

text \<open>The first marked column of row \<open>i\<close> among the columns of row 0.\<close>

definition row_goal :: "level \<Rightarrow> nat \<Rightarrow> nat option" where
  "row_goal lvl i = find (\<lambda>j. lvl ! i ! j = 3) [0..<length (hd lvl)]"

text \<open>
  A move from pixel position \<open>p\<close> to \<open>q\<close> along one axis only, by one tile size: one
  coordinate is kept, the other changes by the tile size, which is not 0.
\<close>

definition one_axis_step :: "int \<Rightarrow> int \<times> int \<Rightarrow> int \<times> int \<Rightarrow> bool" where
  "one_axis_step ts p q =
     ((snd q = snd p \<and> \<bar>fst q - fst p\<bar> = \<bar>ts\<bar> \<and> ts \<noteq> 0)
      \<or> (fst q = fst p \<and> \<bar>snd q - snd p\<bar> = \<bar>ts\<bar> \<and> ts \<noteq> 0))"

subsection \<open>Concrete levels, solvers and controllers\<close>

text \<open>
  Solvers standing for \<open>DFS()\<close> and \<open>BFS()\<close>: one that never finds a path, one that
  answers with the path from the start straight to the goal. An A* solver that finds no
  goal.
\<close>

definition no_solver :: grid_solver where
  "no_solver = (\<lambda>lvl start goal. (False, []))"

definition straight_solver :: grid_solver where
  "straight_solver = (\<lambda>lvl start goal. (True, [start, goal]))"

definition blind_astar :: astar where
  "blind_astar = \<lparr> astar_find_goal_position = (\<lambda>lvl. None), astar_find_shortest_path = None \<rparr>"

definition open_level :: level where
  "open_level = [[0, 0, 0], [0, 0, 0], [0, 0, 0]]"

definition walled_level :: level where
  "walled_level = [[1, 1, 1, 1], [1, 0, 0, 1], [1, 1, 1, 1]]"

definition blocked_level :: level where
  "blocked_level = [[1, 1, 1, 1, 1], [1, 0, 1, 0, 1], [1, 1, 1, 1, 1]]"

definition goal_level :: level where
  "goal_level = [[0, 0, 0], [0, 0, 3], [0, 0, 0]]"

definition marked_level :: level where
  "marked_level =
     [[1, 1, 1, 1, 1, 1, 1], [1, 0, 0, 0, 0, 0, 1], [1, 0, 0, 0, 0, 3, 1], [1, 1, 1, 1, 1, 1, 1]]"

text \<open>Controllers as the constructor leaves them, the player at pixel \<open>(32, 32)\<close>.\<close>

definition open_start :: controller where
  "open_start = init 32 32 open_level True no_solver no_solver"

definition walled_start :: controller where
  "walled_start = init 32 32 walled_level True no_solver no_solver"

definition blocked_start :: controller where
  "blocked_start = init 32 32 blocked_level True no_solver no_solver"

definition goal_start :: controller where
  "goal_start = init 32 32 goal_level True straight_solver straight_solver"

text \<open>A level whose second row is shorter than row 0.\<close>

definition ragged_level :: level where
  "ragged_level = [[0, 0, 0], [0, 0]]"

definition ragged_start :: controller where
  "ragged_start = init 32 32 ragged_level True no_solver no_solver"

section \<open>Auxiliary facts\<close>

lemma py_index_nat: "i < length xs \<Longrightarrow> py_index xs (int i) = Inr (xs ! i)"
  by (simp add: py_index_def)

lemma cell_code_nat:
  "i < length lvl \<Longrightarrow> j < length (lvl ! i) \<Longrightarrow> cell_code lvl (int i) (int j) = Inr (lvl ! i ! j)"
  by (simp add: cell_code_def py_index_nat)

subsection \<open>The test of the cell rejects what lies outside the level\<close>

lemma is_valid_position_outside:
  "\<not> (0 \<le> x \<and> x < int (length lvl) \<and> 0 \<le> y \<and> y < int (length (hd lvl))) \<Longrightarrow>
   is_valid_position lvl (x, y) = Inr False"
  by (cases lvl) (auto simp: is_valid_position_def py_index_def)

subsection \<open>The scan for the goal as a search in the index lists\<close>

lemma find_goal_columns_find:
  "i < length lvl \<Longrightarrow> \<forall>j \<in> set js. j < length (lvl ! i) \<Longrightarrow>
   find_goal_columns lvl i js =
     Inr (map_option (\<lambda>j. (int i, int j)) (find (\<lambda>j. lvl ! i ! j = 3) js))"
  by (induction js) (simp_all add: cell_code_nat)

lemma find_goal_rows_find:
  "lvl \<noteq> [] \<Longrightarrow> \<forall>i \<in> set is. i < length lvl \<and> length (lvl ! i) = length (hd lvl) \<Longrightarrow>
   find_goal_rows lvl is =
     Inr (case find (\<lambda>i. row_goal lvl i \<noteq> None) is of
            None \<Rightarrow> None
          | Some i \<Rightarrow> map_option (\<lambda>j. (int i, int j)) (row_goal lvl i))"
proof (induction "is")
  case Nil
  then show ?case by simp
next
  case (Cons i "is")
  from Cons.prems have i: "i < length lvl" and len: "length (lvl ! i) = length (hd lvl)"
    by simp_all
  from Cons.prems(1) have row0: "py_index lvl 0 = Inr (hd lvl)"
    by (cases lvl) (simp_all add: py_index_def)
  have cols: "find_goal_columns lvl i [0..<length (hd lvl)] =
      Inr (map_option (\<lambda>j. (int i, int j)) (row_goal lvl i))"
    unfolding row_goal_def using i len by (intro find_goal_columns_find) simp_all
  show ?case
  proof (cases "row_goal lvl i")
    case None
    with Cons row0 cols show ?thesis by simp
  next
    case (Some j)
    with row0 cols show ?thesis by simp
  qed
qed

lemma row_goal_None: "row_goal lvl i = None \<longleftrightarrow> (\<forall>j < length (hd lvl). lvl ! i ! j \<noteq> 3)"
  by (auto simp: row_goal_def find_None_iff)

lemma row_goal_Some:
  "row_goal lvl i = Some j \<longleftrightarrow>
     (j < length (hd lvl) \<and> lvl ! i ! j = 3 \<and> (\<forall>j' < j. lvl ! i ! j' \<noteq> 3))"
  by (auto simp: row_goal_def find_Some_iff)

lemma find_goal_position_find:
  assumes "rectangular lvl"
  shows "find_goal_position lvl =
     Inr (case find (\<lambda>i. row_goal lvl i \<noteq> None) [0..<length lvl] of
            None \<Rightarrow> None
          | Some i \<Rightarrow> map_option (\<lambda>j. (int i, int j)) (row_goal lvl i))"
proof (cases "lvl = []")
  case True
  then show ?thesis by (simp add: find_goal_position_def)
next
  case False
  moreover have "\<forall>i \<in> set [0..<length lvl]. i < length lvl \<and> length (lvl ! i) = length (hd lvl)"
    using assms by (simp add: rectangular_def)
  ultimately show ?thesis
    unfolding find_goal_position_def by (rule find_goal_rows_find)
qed

lemma is_goal_rectangular:
  assumes "rectangular lvl"
  shows "is_goal lvl i j \<longleftrightarrow> (i < length lvl \<and> j < length (hd lvl) \<and> lvl ! i ! j = 3)"
  using assms by (auto simp: is_goal_def rectangular_def)

subsection \<open>A blocked pass of the replay loop repeats for ever\<close>

lemma follow_target_blocked:
  assumes blocked: "follow_step ts (current_level s) target (player_x s, player_y s) = Inr None"
    and away: "player_x s \<noteq> fst target \<or> player_y s \<noteq> snd target"
  shows "follow_target ts target s = None"
proof -
  have "\<not> (ts' = ts \<and> target' = target \<and> s' = s)"
    if run: "follow_target ts' target' s' = Some out" for ts' target' s' out
  proof (rule follow_target.raw_induct
      [where P = "\<lambda>a b c y. \<not> (a = ts \<and> b = target \<and> c = s)", OF _ run])
    fix f ts' target' s' out
    assume IH: "\<And>a b c y. f a b c = Some y \<Longrightarrow> \<not> (a = ts \<and> b = target \<and> c = s)"
      and body: "(if player_x s' \<noteq> fst target' \<or> player_y s' \<noteq> snd target' then
          (case follow_step ts' (current_level s') target' (player_x s', player_y s') of
             Inl e \<Rightarrow> Some (Raised e s')
           | Inr None \<Rightarrow> f ts' target' s'
           | Inr (Some new) \<Rightarrow> f ts' target' (s'\<lparr>player_x := fst new, player_y := snd new\<rparr>))
        else Some (Returned s')) = Some out"
    show "\<not> (ts' = ts \<and> target' = target \<and> s' = s)"
    proof
      assume "ts' = ts \<and> target' = target \<and> s' = s"
      then have eq: "ts' = ts" "target' = target" "s' = s" by simp_all
      from body [unfolded eq] have "f ts target s = Some out"
        by (simp only: blocked away if_True sum.case option.case)
      from IH [OF this] show False by simp
    qed
  qed
  then have never: "follow_target ts target s \<noteq> Some out" for out by blast
  show ?thesis
  proof (cases "follow_target ts target s")
    case None
    then show ?thesis .
  next
    case (Some out)
    with never [of out] show ?thesis by simp
  qed
qed

section \<open>The claims\<close>

text \<open>
  C1. The claim is that \<open>move_player\<close> changes the cached cell and the pixel position
  only when the test of the cell and the test of the pixel position both pass. The
  method guards each of the two with its own test and nothing else. Whenever a direction
  is pressed and both tests return, the cached cell becomes the prospective cell exactly
  when \<open>is_valid_position\<close> holds for it, and the pixel position becomes the prospective
  one exactly when \<open>check_collision\<close> holds for it.
\<close>

theorem move_player_separate_guards:
  assumes "prospective ts d s = Some (new_x, new_y, new_position)"
    and "is_valid_position (current_level s) new_position = Inr valid"
    and "check_collision ts (current_level s) new_x new_y = Inr free"
  shows "move_player ts d s =
     Returned (s\<lparr>player_position := (if valid then new_position else player_position s),
                player_x := (if free then new_x else player_x s),
                player_y := (if free then new_y else player_y s)\<rparr>)"
  using assms by (simp add: move_player_def)

text \<open>
  An instance: from the start on \<open>walled_level\<close> the key right passes both tests, and
  both positions move.
\<close>

theorem move_player_separate_guards_witness:
  "prospective 32 (keys_down [K_RIGHT]) walled_start = Some (64, 32, (1, 2))
   \<and> is_valid_position (current_level walled_start) (1, 2) = Inr True
   \<and> check_collision 32 (current_level walled_start) 64 32 = Inr True
   \<and> move_player 32 (keys_down [K_RIGHT]) walled_start =
       Returned (walled_start\<lparr>player_position := (1, 2), player_x := 64, player_y := 32\<rparr>)"
proof -
  have p: "prospective 32 (keys_down [K_RIGHT]) walled_start = Some (64, 32, (1, 2))"
    by (simp add: prospective_def keys_down_def walled_start_def init_def)
  have v: "is_valid_position (current_level walled_start) (1, 2) = Inr True"
    by (simp add: is_valid_position_def walled_start_def init_def walled_level_def
        cell_code_def py_index_def)
  have c: "check_collision 32 (current_level walled_start) 64 32 = Inr True"
    by (simp add: check_collision_def walled_start_def init_def walled_level_def
        cell_code_def py_index_def floordiv_def)
  from move_player_separate_guards [OF p v c] p v c show ?thesis by simp
qed

text \<open>
  The claim fails on \<open>walled_level\<close>: replaying the path \<open>[(1, 2)]\<close> from the start moves
  the pixel position to \<open>(64, 32)\<close> and leaves the cached cell at \<open>(1, 1)\<close>. The key right
  then asks for the cell \<open>(1, 2)\<close>, which is free, and for the pixel position \<open>(96, 32)\<close>,
  which lies in the wall cell \<open>(1, 3)\<close>: the test of the pixel position fails, and the
  cached cell is changed all the same.
\<close>

theorem move_player_cell_without_pixel:
  "follow_path 32 [(1, 2)] walled_start = Some (Returned (walled_start\<lparr>player_x := 64\<rparr>))
   \<and> player_position (walled_start\<lparr>player_x := 64\<rparr>) = (1, 1)
   \<and> check_collision 32 walled_level 96 32 = Inr False
   \<and> move_player 32 (keys_down [K_RIGHT]) (walled_start\<lparr>player_x := 64\<rparr>) =
       Returned (walled_start\<lparr>player_x := 64, player_position := (1, 2)\<rparr>)"
  by (simp add: follow_target.simps cell_to_pixel_def walled_start_def init_def follow_step_def
      floordiv_def cell_code_def py_index_def walled_level_def move_player_def prospective_def
      keys_down_def is_valid_position_def check_collision_def)

text \<open>
  C2. The claim is that a pass of the replay loop that moves the player changes one
  pixel coordinate only. The pass computes both directions and assigns both coordinates
  at once: each coordinate that differs from the target moves by one tile size towards
  it, a coordinate that agrees with the target stays. So the move follows one axis when
  the player is level with the target on the other axis (and not at the target, as the
  loop condition requires), and it changes both coordinates when neither agrees. A pass
  that moves the player also shows that the tile size is not 0.
\<close>

theorem follow_step_moves:
  assumes "follow_step ts lvl (target_x, target_y) (px, py) = Inr (Some (new_x, new_y))"
  shows "ts \<noteq> 0
    \<and> new_x = (if target_x > px then px + ts else if target_x < px then px - ts else px)
    \<and> new_y = (if target_y > py then py + ts else if target_y < py then py - ts else py)
    \<and> ((px = target_x \<or> py = target_y) \<and> (px, py) \<noteq> (target_x, target_y)
          \<longrightarrow> one_axis_step ts (px, py) (new_x, new_y))
    \<and> (px \<noteq> target_x \<and> py \<noteq> target_y \<longrightarrow> new_x \<noteq> px \<and> new_y \<noteq> py)"
  using assms
  by (auto simp: follow_step_def floordiv_def one_axis_step_def Let_def
      split: sum.splits if_splits)

theorem follow_step_moves_witness:
  "follow_step 32 open_level (64, 32) (32, 32) = Inr (Some (64, 32))
   \<and> one_axis_step 32 (32, 32) (64, 32)"
proof -
  have st: "follow_step 32 open_level (64, 32) (32, 32) = Inr (Some (64, 32))"
    by (simp add: follow_step_def floordiv_def cell_code_def py_index_def open_level_def)
  from follow_step_moves [OF st] st show ?thesis by simp
qed

text \<open>
  The claim fails on \<open>open_level\<close>: with the player at pixel \<open>(32, 32)\<close> and the target
  cell \<open>(2, 2)\<close>, a single pass moves the player to \<open>(64, 64)\<close>.
\<close>

theorem follow_step_diagonal:
  "follow_step 32 open_level (cell_to_pixel 32 (2, 2)) (32, 32) = Inr (Some (64, 64))
   \<and> \<not> one_axis_step 32 (32, 32) (64, 64)"
  by (simp add: follow_step_def floordiv_def cell_code_def py_index_def open_level_def
      one_axis_step_def cell_to_pixel_def)

text \<open>
  C3. Replay is claimed to end for every finite path and every pixel position, also when
  the test of the next cell fails before the target is reached. The loop has no exit for
  that case: on the level \<open>blocked_level\<close> (tile size 32) the player stands at pixel
  \<open>(32, 32)\<close>, the path is \<open>[(1, 3)]\<close>, the wall cell \<open>(1, 2)\<close> lies between; every pass
  fails the test and leaves the position as it is, so the replay never returns.
\<close>

theorem follow_path_blocked_never_returns:
  "follow_path 32 [(1, 3)] blocked_start = None"
proof -
  have "follow_step 32 (current_level blocked_start) (96, 32)
          (player_x blocked_start, player_y blocked_start) = Inr None"
    by (simp add: blocked_start_def init_def blocked_level_def follow_step_def floordiv_def
        cell_code_def py_index_def)
  moreover have "player_x blocked_start \<noteq> fst (96::int, 32::int)
      \<or> player_y blocked_start \<noteq> snd (96::int, 32::int)"
    by (simp add: blocked_start_def init_def)
  ultimately have "follow_target 32 (96, 32) blocked_start = None"
    by (rule follow_target_blocked)
  then show ?thesis by (simp add: cell_to_pixel_def)
qed

text \<open>
  C4. Cells outside the level are claimed to be rejected by every test. On \<open>open_level\<close>
  (tile size 32) \<open>is_valid_position\<close> rejects the cell \<open>(-1, 0)\<close>, as claimed. The test
  \<open>check_collision\<close> has no test of the bounds: for the pixel position \<open>(0, -32)\<close> it reads
  row \<open>-1\<close>, which Python counts from the end, and accepts; for \<open>(96, 0)\<close> it reads column 3
  and raises \<open>IndexError\<close>. The test in the replay loop reads the level the same way and
  lets the player leave the level, and so does \<open>move_player\<close> for the key up at the
  pixel position \<open>(0, 0)\<close>.
\<close>

theorem check_collision_ignores_bounds:
  "is_valid_position open_level (- 1, 0) = Inr False
   \<and> check_collision 32 open_level 0 (- 32) = Inr True
   \<and> check_collision 32 open_level 96 0 = Inl IndexError
   \<and> follow_step 32 open_level (0, - 32) (0, 0) = Inr (Some (0, - 32))
   \<and> move_player 32 (keys_down [K_UP])
        (open_start\<lparr>player_x := 0, player_y := 0, player_position := (0, 0)\<rparr>) =
       Returned (open_start\<lparr>player_x := 0, player_y := - 32, player_position := (0, 0)\<rparr>)"
  by (simp add: follow_step_def floordiv_def cell_code_def py_index_def open_level_def
      move_player_def prospective_def keys_down_def is_valid_position_def check_collision_def
      open_start_def init_def)

text \<open>
  C5. The claim is that every \<open>move_to_goal\<close> method reports a solver that was never set
  and a goal that is missing, and moves nothing then. What the methods do: the
  constructor fills the DFS and the BFS slot and leaves the other two empty; with the
  Dijkstra slot empty, \<open>move_to_goal_dijkstra\<close> returns the controller unchanged and
  writes nothing; with the A* slot empty, \<open>move_to_goal_astar\<close> writes one line and
  changes nothing else; on a level with no goal cell (tile size not 0) the DFS, BFS and
  Dijkstra methods return the controller unchanged and write nothing, and so does the A*
  method when its solver finds no goal.
\<close>

theorem move_to_goal_no_solver_no_goal:
  "dfs_solver (init px py lvl truth dfs0 bfs0) = Some dfs0
   \<and> bfs_solver (init px py lvl truth dfs0 bfs0) = Some bfs0
   \<and> dijkstra_solver (init px py lvl truth dfs0 bfs0) = None
   \<and> astar_solver (init px py lvl truth dfs0 bfs0) = None
   \<and> (dijkstra_solver s = None \<longrightarrow> move_to_goal_dijkstra ts s = Some (Returned s))
   \<and> (astar_solver s = None \<longrightarrow>
        move_to_goal_astar ts s =
          Some (Returned (s\<lparr>stdout :=
            stdout s @ [''A* solver not initialized. Please call set_astar_solver first.'']\<rparr>)))
   \<and> (ts \<noteq> 0 \<and> find_goal_position (current_level s) = Inr None \<longrightarrow>
        move_to_goal_dfs ts s = Some (Returned s)
        \<and> move_to_goal_bfs ts s = Some (Returned s)
        \<and> move_to_goal_dijkstra ts s = Some (Returned s))
   \<and> (ts \<noteq> 0 \<and> maze_truth s \<and> astar_solver s = Some a
        \<and> astar_find_goal_position a (current_level s) = None \<longrightarrow>
        move_to_goal_astar ts s = Some (Returned s))"
  by (simp add: move_to_goal_dijkstra_def move_to_goal_astar_def move_to_goal_dfs_def
      move_to_goal_bfs_def move_to_goal_grid_def print_def start_position_def pixel_to_cell_def
      floordiv_def init_def split: option.splits)

theorem move_to_goal_no_solver_no_goal_witness:
  "move_to_goal_dijkstra 32 open_start = Some (Returned open_start)
   \<and> move_to_goal_astar 32 open_start =
       Some (Returned (open_start\<lparr>stdout :=
         [''A* solver not initialized. Please call set_astar_solver first.'']\<rparr>))
   \<and> move_to_goal_dfs 32 open_start = Some (Returned open_start)
   \<and> move_to_goal_bfs 32 open_start = Some (Returned open_start)
   \<and> move_to_goal_astar 32 (set_astar_solver (Some blind_astar) open_start) =
       Some (Returned (set_astar_solver (Some blind_astar) open_start))"
proof -
  have slots: "dijkstra_solver open_start = None" "astar_solver open_start = None"
    "stdout open_start = []"
    by (simp_all add: open_start_def init_def)
  have goal: "find_goal_position (current_level open_start) = Inr None"
    by (simp add: open_start_def init_def open_level_def find_goal_position_def cell_code_def
        py_index_def upt_conv_Cons)
  have blind: "maze_truth (set_astar_solver (Some blind_astar) open_start)"
    "astar_find_goal_position blind_astar
       (current_level (set_astar_solver (Some blind_astar) open_start)) = None"
    "astar_solver (set_astar_solver (Some blind_astar) open_start) = Some blind_astar"
    by (simp_all add: open_start_def init_def blind_astar_def set_astar_solver_def)
  from move_to_goal_no_solver_no_goal [of _ _ _ _ _ _ open_start 32]
    move_to_goal_no_solver_no_goal
      [of _ _ _ _ _ _ "set_astar_solver (Some blind_astar) open_start" 32 blind_astar]
    slots goal blind
  show ?thesis by simp
qed

text \<open>
  The claim fails for the controller as the constructor leaves it. On \<open>open_level\<close>, which
  has no goal cell, the Dijkstra slot is empty, and both \<open>move_to_goal_dijkstra\<close> and
  \<open>move_to_goal_dfs\<close> return with nothing written. On \<open>goal_level\<close> nobody has set the DFS
  solver, the slot holds the solver of the constructor, and \<open>move_to_goal_dfs\<close> moves the
  player.
\<close>

theorem move_to_goal_silent:
  "dijkstra_solver open_start = None
   \<and> find_goal_position (current_level open_start) = Inr None
   \<and> stdout open_start = []
   \<and> move_to_goal_dijkstra 32 open_start = Some (Returned open_start)
   \<and> move_to_goal_dfs 32 open_start = Some (Returned open_start)
   \<and> move_to_goal_dfs 32 goal_start = Some (Returned (goal_start\<lparr>player_x := 64\<rparr>))"
  by (simp add: move_to_goal_dijkstra_def move_to_goal_dfs_def move_to_goal_grid_def
      open_start_def goal_start_def init_def open_level_def goal_level_def straight_solver_def
      find_goal_position_def start_position_def pixel_to_cell_def floordiv_def cell_code_def
      py_index_def upt_conv_Cons follow_target.simps follow_step_def cell_to_pixel_def)

text \<open>
  C6. On a rectangular level \<open>find_goal_position\<close> raises no error; it returns \<open>None\<close>
  exactly when no cell carries the marker 3, and otherwise the marked cell that comes
  first in row-major order, which is the least marked cell in the lexicographic order of
  \<open>(row, column)\<close>. In particular, when the only marked cell is in row 2, column 5, the
  result is \<open>(2, 5)\<close>.
\<close>

theorem find_goal_position_first:
  assumes "rectangular lvl"
  shows "(case find_goal_position lvl of
            Inl e \<Rightarrow> False
          | Inr None \<Rightarrow> (\<forall>i j. \<not> is_goal lvl i j)
          | Inr (Some (r, c)) \<Rightarrow>
              (\<exists>i j. r = int i \<and> c = int j \<and> is_goal lvl i j \<and>
                 (\<forall>i' j'. is_goal lvl i' j' \<longrightarrow> i < i' \<or> (i = i' \<and> j \<le> j'))))
         \<and> (is_goal lvl 2 5 \<and> (\<forall>i j. is_goal lvl i j \<longrightarrow> i = 2 \<and> j = 5)
              \<longrightarrow> find_goal_position lvl = Inr (Some (2, 5)))"
proof -
  note fg = find_goal_position_find [OF assms]
  note ig = is_goal_rectangular [OF assms]
  have main: "case find_goal_position lvl of
            Inl e \<Rightarrow> False
          | Inr None \<Rightarrow> (\<forall>i j. \<not> is_goal lvl i j)
          | Inr (Some (r, c)) \<Rightarrow>
              (\<exists>i j. r = int i \<and> c = int j \<and> is_goal lvl i j \<and>
                 (\<forall>i' j'. is_goal lvl i' j' \<longrightarrow> i < i' \<or> (i = i' \<and> j \<le> j')))"
  proof (cases "find (\<lambda>i. row_goal lvl i \<noteq> None) [0..<length lvl]")
    case None
    then have "\<forall>i < length lvl. row_goal lvl i = None"
      by (simp add: find_None_iff)
    then have "\<forall>i j. \<not> is_goal lvl i j"
      by (simp add: ig row_goal_None)
    with None fg show ?thesis by simp
  next
    case (Some i)
    then have i: "i < length lvl" and ex: "row_goal lvl i \<noteq> None"
      and before: "\<forall>i' < i. row_goal lvl i' = None"
      by (auto simp: find_Some_iff)
    from ex obtain j where j: "row_goal lvl i = Some j" by auto
    then have jl: "j < length (hd lvl)" and g: "lvl ! i ! j = 3"
      and jmin: "\<forall>j' < j. lvl ! i ! j' \<noteq> 3"
      by (simp_all add: row_goal_Some)
    have res: "find_goal_position lvl = Inr (Some (int i, int j))"
      using fg Some j by simp
    have goal: "is_goal lvl i j" using i jl g by (simp add: ig)
    have least: "i < i' \<or> (i = i' \<and> j \<le> j')" if h: "is_goal lvl i' j'" for i' j'
    proof -
      from h have h': "i' < length lvl" "j' < length (hd lvl)" "lvl ! i' ! j' = 3"
        by (simp_all add: ig)
      have "\<not> i' < i"
      proof
        assume "i' < i"
        with before have "row_goal lvl i' = None" by simp
        with h' show False by (simp add: row_goal_None)
      qed
      moreover have "j \<le> j'" if "i' = i"
      proof (rule ccontr)
        assume "\<not> j \<le> j'"
        with jmin have "lvl ! i ! j' \<noteq> 3" by simp
        with h' that show False by simp
      qed
      ultimately show ?thesis by auto
    qed
    show ?thesis using res goal least by auto
  qed
  have single: "find_goal_position lvl = Inr (Some (2, 5))"
    if a: "is_goal lvl 2 5" and only: "\<forall>i j. is_goal lvl i j \<longrightarrow> i = 2 \<and> j = 5"
  proof (cases "find_goal_position lvl")
    case (Inl e)
    with main show ?thesis by simp
  next
    case (Inr res)
    show ?thesis
    proof (cases res)
      case None
      with Inr main a show ?thesis by simp
    next
      case (Some p)
      obtain r c where p: "p = (r, c)" by (cases p)
      from main Inr Some p obtain i j where "r = int i" "c = int j" "is_goal lvl i j"
        by auto
      with only have "r = 2 \<and> c = 5" by auto
      with Inr Some p show ?thesis by simp
    qed
  qed
  from main single show ?thesis by blast
qed

theorem find_goal_position_first_witness:
  "rectangular marked_level \<and> is_goal marked_level 2 5
   \<and> find_goal_position marked_level = Inr (Some (2, 5))"
proof -
  have r: "rectangular marked_level"
    by (simp add: rectangular_def marked_level_def)
  have v: "find_goal_position marked_level = Inr (Some (2, 5))"
    by (simp add: find_goal_position_def marked_level_def cell_code_def py_index_def
        upt_conv_Cons)
  have g: "is_goal marked_level 2 5"
    by (simp add: is_goal_def marked_level_def)
  from find_goal_position_first [OF r] v g r show ?thesis by simp
qed

text \<open>
  C7. For a tile size other than 0, the pixel position of a cell, divided back by the
  tile size, is the cell again. This holds for every cell, so for every cell of the
  level.
\<close>

theorem cell_pixel_roundtrip:
  "ts \<noteq> 0 \<Longrightarrow> pixel_to_cell ts (cell_to_pixel ts (row, col)) = Inr (row, col)"
  by (simp add: pixel_to_cell_def cell_to_pixel_def floordiv_def)

theorem cell_pixel_roundtrip_witness:
  "(32::int) \<noteq> 0 \<and> cell_to_pixel 32 (2, 5) = (160, 64)
   \<and> pixel_to_cell 32 (cell_to_pixel 32 (2, 5)) = Inr (2, 5)"
proof -
  have nz: "(32::int) \<noteq> 0" by simp
  from cell_pixel_roundtrip [OF nz, of 2 5] nz show ?thesis
    by (simp add: cell_to_pixel_def)
qed

text \<open>
  C8. \<open>reset_player_position\<close> puts the player at the pixel position
  \<open>(TILE_SIZE, TILE_SIZE)\<close> whatever the state was, and a second call changes nothing.
\<close>

theorem reset_player_position_spawn:
  "player_x (reset_player_position ts s) = ts
   \<and> player_y (reset_player_position ts s) = ts
   \<and> reset_player_position ts (reset_player_position ts s) = reset_player_position ts s"
  by (simp add: reset_player_position_def)

text \<open>
  C9. \<open>reset_player_position\<close> leaves every field but the two pixel coordinates as it
  was, the cached cell among them. So whenever the cached cell is not \<open>(1, 1)\<close>, the cell
  derived from the pixel position after the reset is not the cached cell.
\<close>

theorem reset_player_position_frame:
  "player_position (reset_player_position ts s) = player_position s
   \<and> current_level (reset_player_position ts s) = current_level s
   \<and> maze_truth (reset_player_position ts s) = maze_truth s
   \<and> dfs_solver (reset_player_position ts s) = dfs_solver s
   \<and> bfs_solver (reset_player_position ts s) = bfs_solver s
   \<and> dijkstra_solver (reset_player_position ts s) = dijkstra_solver s
   \<and> astar_solver (reset_player_position ts s) = astar_solver s
   \<and> stdout (reset_player_position ts s) = stdout s
   \<and> (player_position s \<noteq> (1, 1) \<longrightarrow>
        start_position ts (reset_player_position ts s)
          \<noteq> Inr (player_position (reset_player_position ts s)))"
  by (simp add: reset_player_position_def start_position_def pixel_to_cell_def floordiv_def)

text \<open>
  An instance: after the key down on \<open>open_level\<close> the cached cell is \<open>(2, 1)\<close>; the reset
  puts the player into the cell \<open>(1, 1)\<close> and keeps the cached cell.
\<close>

theorem reset_player_position_frame_witness:
  "move_player 32 (keys_down [K_DOWN]) open_start =
     Returned (open_start\<lparr>player_position := (2, 1), player_y := 64\<rparr>)
   \<and> player_position
        (reset_player_position 32 (open_start\<lparr>player_position := (2, 1), player_y := 64\<rparr>))
       = (2, 1)
   \<and> start_position 32
        (reset_player_position 32 (open_start\<lparr>player_position := (2, 1), player_y := 64\<rparr>))
       = Inr (1, 1)"
proof -
  have m: "move_player 32 (keys_down [K_DOWN]) open_start =
     Returned (open_start\<lparr>player_position := (2, 1), player_y := 64\<rparr>)"
    by (simp add: move_player_def prospective_def keys_down_def open_start_def init_def
        open_level_def is_valid_position_def check_collision_def cell_code_def py_index_def
        floordiv_def)
  have p: "player_position (open_start\<lparr>player_position := (2, 1), player_y := 64\<rparr>) \<noteq> (1, 1)"
    by simp
  have st: "start_position 32
        (reset_player_position 32 (open_start\<lparr>player_position := (2, 1), player_y := 64\<rparr>))
       = Inr (1, 1)"
    by (simp add: start_position_def reset_player_position_def pixel_to_cell_def floordiv_def)
  from reset_player_position_frame
      [of 32 "open_start\<lparr>player_position := (2, 1), player_y := 64\<rparr>"] m p st
  show ?thesis by simp
qed

text \<open>
  C10. \<open>move_player\<close> applies one direction at most: that of the first pressed key in
  the order up, down, left, right, whatever other keys are pressed. Up asks for the pixel
  position one tile size less in \<open>y\<close> and the cell one row less, down for one tile size
  more in \<open>y\<close> and one row more, left for one tile size less in \<open>x\<close> and one column
  less, right for one tile size more in \<open>x\<close> and one column more. With none of the four
  pressed the controller is returned as it was. With a direction chosen, the outcome is
  that of the two tests on the prospective cell and pixel position of that direction
  alone: each test that passes commits its position, and a test that raises ends the
  call with what was committed before it.
\<close>

theorem move_player_priority:
  "move_player ts d s =
     (if d K_UP then move_player ts (keys_down [K_UP]) s
      else if d K_DOWN then move_player ts (keys_down [K_DOWN]) s
      else if d K_LEFT then move_player ts (keys_down [K_LEFT]) s
      else if d K_RIGHT then move_player ts (keys_down [K_RIGHT]) s
      else Returned s)
   \<and> prospective ts d s =
     (if d K_UP then
        Some (player_x s, player_y s - ts,
              (fst (player_position s) - 1, snd (player_position s)))
      else if d K_DOWN then
        Some (player_x s, player_y s + ts,
              (fst (player_position s) + 1, snd (player_position s)))
      else if d K_LEFT then
        Some (player_x s - ts, player_y s,
              (fst (player_position s), snd (player_position s) - 1))
      else if d K_RIGHT then
        Some (player_x s + ts, player_y s,
              (fst (player_position s), snd (player_position s) + 1))
      else None)
   \<and> (prospective ts d s = None \<longrightarrow> move_player ts d s = Returned s)
   \<and> (prospective ts d s = Some (new_x, new_y, new_position)
        \<and> is_valid_position (current_level s) new_position = Inr valid
        \<and> check_collision ts (current_level s) new_x new_y = Inr free \<longrightarrow>
        move_player ts d s =
          Returned (s\<lparr>player_position := (if valid then new_position else player_position s),
                     player_x := (if free then new_x else player_x s),
                     player_y := (if free then new_y else player_y s)\<rparr>))
   \<and> (prospective ts d s = Some (new_x, new_y, new_position)
        \<and> is_valid_position (current_level s) new_position = Inl e \<longrightarrow>
        move_player ts d s = Raised e s)
   \<and> (prospective ts d s = Some (new_x, new_y, new_position)
        \<and> is_valid_position (current_level s) new_position = Inr valid
        \<and> check_collision ts (current_level s) new_x new_y = Inl e \<longrightarrow>
        move_player ts d s =
          Raised e (s\<lparr>player_position := (if valid then new_position else player_position s)\<rparr>))"
proof -
  have chain: "move_player ts d s =
     (if d K_UP then move_player ts (keys_down [K_UP]) s
      else if d K_DOWN then move_player ts (keys_down [K_DOWN]) s
      else if d K_LEFT then move_player ts (keys_down [K_LEFT]) s
      else if d K_RIGHT then move_player ts (keys_down [K_RIGHT]) s
      else Returned s)"
    by (simp add: move_player_def prospective_def keys_down_def)
  have target: "prospective ts d s =
     (if d K_UP then
        Some (player_x s, player_y s - ts,
              (fst (player_position s) - 1, snd (player_position s)))
      else if d K_DOWN then
        Some (player_x s, player_y s + ts,
              (fst (player_position s) + 1, snd (player_position s)))
      else if d K_LEFT then
        Some (player_x s - ts, player_y s,
              (fst (player_position s), snd (player_position s) - 1))
      else if d K_RIGHT then
        Some (player_x s + ts, player_y s,
              (fst (player_position s), snd (player_position s) + 1))
      else None)"
    by (simp add: prospective_def Let_def)
  have none: "prospective ts d s = None \<longrightarrow> move_player ts d s = Returned s"
    by (simp add: move_player_def)
  have both: "prospective ts d s = Some (new_x, new_y, new_position)
        \<and> is_valid_position (current_level s) new_position = Inr valid
        \<and> check_collision ts (current_level s) new_x new_y = Inr free \<longrightarrow>
        move_player ts d s =
          Returned (s\<lparr>player_position := (if valid then new_position else player_position s),
                     player_x := (if free then new_x else player_x s),
                     player_y := (if free then new_y else player_y s)\<rparr>)"
    by (simp add: move_player_def)
  have err1: "prospective ts d s = Some (new_x, new_y, new_position)
        \<and> is_valid_position (current_level s) new_position = Inl e \<longrightarrow>
        move_player ts d s = Raised e s"
    by (simp add: move_player_def)
  have err2: "prospective ts d s = Some (new_x, new_y, new_position)
        \<and> is_valid_position (current_level s) new_position = Inr valid
        \<and> check_collision ts (current_level s) new_x new_y = Inl e \<longrightarrow>
        move_player ts d s =
          Raised e (s\<lparr>player_position := (if valid then new_position else player_position s)\<rparr>)"
    by (simp add: move_player_def)
  from chain target none both err1 err2 show ?thesis by (intro conjI)
qed

text \<open>
  Instances on \<open>open_level\<close>: of right, left and down pressed together, down is applied;
  of right and left, left is applied; with no key nothing changes. On \<open>ragged_level\<close>
  the test of the cell raises for the key right; one tile further right on \<open>open_level\<close>
  the test of the pixel position raises after the cell was committed.
\<close>

theorem move_player_priority_witness:
  "move_player 32 (keys_down [K_RIGHT, K_LEFT, K_DOWN]) open_start =
     Returned (open_start\<lparr>player_position := (2, 1), player_x := 32, player_y := 64\<rparr>)
   \<and> move_player 32 (keys_down [K_RIGHT, K_LEFT]) open_start =
     Returned (open_start\<lparr>player_position := (1, 0), player_x := 0, player_y := 32\<rparr>)
   \<and> move_player 32 (keys_down []) open_start = Returned open_start
   \<and> move_player 32 (keys_down [K_RIGHT]) ragged_start = Raised IndexError ragged_start
   \<and> move_player 32 (keys_down [K_RIGHT]) (open_start\<lparr>player_x := 64\<rparr>) =
     Raised IndexError (open_start\<lparr>player_x := 64, player_position := (1, 2)\<rparr>)"
proof -
  note checks = open_level_def ragged_level_def is_valid_position_def check_collision_def
    cell_code_def py_index_def floordiv_def
  let ?down = "keys_down [K_RIGHT, K_LEFT, K_DOWN]"
  let ?left = "keys_down [K_RIGHT, K_LEFT]"
  let ?right = "keys_down [K_RIGHT]"
  let ?moved = "open_start\<lparr>player_x := 64\<rparr>"
  have start: "player_x open_start = 32" "player_y open_start = 32"
    "player_position open_start = (1, 1)" "current_level open_start = open_level"
    by (simp_all add: open_start_def init_def)
  have rstart: "player_x ragged_start = 32" "player_y ragged_start = 32"
    "player_position ragged_start = (1, 1)" "current_level ragged_start = ragged_level"
    by (simp_all add: ragged_start_def init_def)
  have down: "prospective 32 ?down open_start = Some (32, 64, (2, 1))"
    using move_player_priority [of 32 ?down open_start, THEN conjunct2, THEN conjunct1]
    by (simp add: keys_down_def start)
  have down_ok: "is_valid_position (current_level open_start) (2, 1) = Inr True"
    "check_collision 32 (current_level open_start) 32 64 = Inr True"
    by (simp_all add: start checks)
  have left: "prospective 32 ?left open_start = Some (0, 32, (1, 0))"
    using move_player_priority [of 32 ?left open_start, THEN conjunct2, THEN conjunct1]
    by (simp add: keys_down_def start)
  have left_ok: "is_valid_position (current_level open_start) (1, 0) = Inr True"
    "check_collision 32 (current_level open_start) 0 32 = Inr True"
    by (simp_all add: start checks)
  have none: "prospective 32 (keys_down []) open_start = None"
    using move_player_priority [of 32 "keys_down []" open_start, THEN conjunct2, THEN conjunct1]
    by (simp add: keys_down_def)
  have ragged: "prospective 32 ?right ragged_start = Some (64, 32, (1, 2))"
    using move_player_priority [of 32 ?right ragged_start, THEN conjunct2, THEN conjunct1]
    by (simp add: keys_down_def rstart)
  have ragged_err: "is_valid_position (current_level ragged_start) (1, 2) = Inl IndexError"
    by (simp add: rstart checks)
  have moved: "prospective 32 ?right ?moved = Some (96, 32, (1, 2))"
    using move_player_priority [of 32 ?right ?moved, THEN conjunct2, THEN conjunct1]
    by (simp add: keys_down_def start)
  have moved_ok: "is_valid_position (current_level ?moved) (1, 2) = Inr True"
    and moved_err: "check_collision 32 (current_level ?moved) 96 32 = Inl IndexError"
    by (simp_all add: start checks)
  have r1: "move_player 32 ?down open_start =
      Returned (open_start\<lparr>player_position := (2, 1), player_x := 32, player_y := 64\<rparr>)"
    using move_player_priority [of 32 ?down open_start 32 64 "(2, 1)" True True,
        THEN conjunct2, THEN conjunct2, THEN conjunct2, THEN conjunct1]
      down down_ok by simp
  have r2: "move_player 32 ?left open_start =
      Returned (open_start\<lparr>player_position := (1, 0), player_x := 0, player_y := 32\<rparr>)"
    using move_player_priority [of 32 ?left open_start 0 32 "(1, 0)" True True,
        THEN conjunct2, THEN conjunct2, THEN conjunct2, THEN conjunct1]
      left left_ok by simp
  have r3: "move_player 32 (keys_down []) open_start = Returned open_start"
    using move_player_priority [of 32 "keys_down []" open_start,
        THEN conjunct2, THEN conjunct2, THEN conjunct1]
      none by simp
  have r4: "move_player 32 ?right ragged_start = Raised IndexError ragged_start"
    using move_player_priority [of 32 ?right ragged_start 64 32 "(1, 2)" _ _ IndexError,
        THEN conjunct2, THEN conjunct2, THEN conjunct2, THEN conjunct2, THEN conjunct1]
      ragged ragged_err by simp
  have r5: "move_player 32 ?right ?moved =
      Raised IndexError (open_start\<lparr>player_x := 64, player_position := (1, 2)\<rparr>)"
    using move_player_priority [of 32 ?right ?moved 96 32 "(1, 2)" True _ IndexError,
        THEN conjunct2, THEN conjunct2, THEN conjunct2, THEN conjunct2, THEN conjunct2]
      moved moved_ok moved_err by simp
  from r1 r2 r3 r4 r5 show ?thesis by (intro conjI)
qed

end
